theory Spec2Isabelle
  imports Main "HOL-Library.Word"
begin

section \<open>The address translator of the UAN model\<close>

text \<open>
  The development embeds \<^verbatim>\<open>src/ns-3.25/src/uan/model/uan-address-translator.cc\<close>:
  the class \<^verbatim>\<open>AddressTranslator\<close> with its two tables \<^verbatim>\<open>storeMap\<close> (hardware to
  short) and \<^verbatim>\<open>getMap\<close> (short to hardware) and its three member functions
  \<^verbatim>\<open>translate\<close>, \<^verbatim>\<open>getM48\<close> and \<^verbatim>\<open>remove\<close>.
\<close>

subsection \<open>Addresses\<close>

type_synonym byte = "8 word"

text \<open>
  A \<^verbatim>\<open>Mac48Address\<close> is six bytes; \<^verbatim>\<open>CopyTo\<close> writes them to a buffer in order and
  \<^verbatim>\<open>==\<close> compares them bytewise. A \<^verbatim>\<open>UanAddress\<close> is one byte: the source copies it
  into a single \<^verbatim>\<open>uint8_t\<close> and uses that byte as the key of \<^verbatim>\<open>getMap\<close>.
\<close>

datatype Mac48Address = Mac48Address byte byte byte byte byte byte

datatype UanAddress = UanAddress byte

fun Mac48Address_CopyTo :: "Mac48Address \<Rightarrow> byte list" where
  "Mac48Address_CopyTo (Mac48Address b0 b1 b2 b3 b4 b5) = [b0, b1, b2, b3, b4, b5]"

fun UanAddress_CopyTo :: "UanAddress \<Rightarrow> byte" where
  "UanAddress_CopyTo (UanAddress a) = a"

text \<open>The constant \<^verbatim>\<open>Mac48Address ("ff:ff:ff:ff:ff:ff")\<close> of the source.\<close>

definition Mac48Address_ff :: Mac48Address where
  "Mac48Address_ff = Mac48Address 255 255 255 255 255 255"

text \<open>
  Modelled from the spec: \<^verbatim>\<open>UanAddress::GetBroadcast\<close>, which the source calls and does
  not define. The spec reserves one short address as the broadcast sentinel; the
  model takes the all-ones byte, which \<open>UanAddress_Allocate\<close> below never hands out.
\<close>

definition UanAddress_GetBroadcast :: UanAddress where
  "UanAddress_GetBroadcast = UanAddress 255"

subsection \<open>Errors and allocators\<close>

datatype error = AddressSpaceExhausted

text \<open>
  Modelled from the spec: \<^verbatim>\<open>UanAddress::Allocate\<close>, which the source calls and does not
  define. The spec asks for a deterministic, monotonic allocator whose values are
  unique, and which fails with \<open>AddressSpaceExhausted\<close> once every representable
  value has been assigned. The model is a counter: \<open>n\<close> short addresses have been
  assigned so far, the next one is \<open>n\<close> itself, and the 255 values below the
  broadcast sentinel are all there is.
\<close>

definition UanAddress_Allocate :: "nat \<Rightarrow> error + (UanAddress \<times> nat)" where
  "UanAddress_Allocate n =
     (if n < 255 then Inr (UanAddress (of_nat n), Suc n) else Inl AddressSpaceExhausted)"

text \<open>The six bytes of a number below \<open>2 ^ 48\<close>, most significant first.\<close>

definition Mac48Address_of_nat :: "nat \<Rightarrow> Mac48Address" where
  "Mac48Address_of_nat n =
     Mac48Address (of_nat (n div 2 ^ 40)) (of_nat (n div 2 ^ 32)) (of_nat (n div 2 ^ 24))
       (of_nat (n div 2 ^ 16)) (of_nat (n div 2 ^ 8)) (of_nat n)"

text \<open>
  Modelled from the spec: \<^verbatim>\<open>Mac48Address::Allocate\<close>, which the source calls and does
  not define. As for the short addresses the model is a counter: \<open>n\<close> hardware
  addresses have been assigned so far, the next one is the number \<open>n + 1\<close> written
  as six bytes, and the allocator fails rather than hand out the broadcast address
  or start again.
\<close>

definition Mac48Address_Allocate :: "nat \<Rightarrow> error + (Mac48Address \<times> nat)" where
  "Mac48Address_Allocate n =
     (if Suc n < 2 ^ 48 - 1 then Inr (Mac48Address_of_nat (Suc n), Suc n)
      else Inl AddressSpaceExhausted)"

subsection \<open>State\<close>

text \<open>
  The two tables are the members of the translator; the two counters are the state
  of the allocators, which lives outside the translator and is shared by every
  caller of \<^verbatim>\<open>Allocate\<close>. The keys of \<open>storeMap\<close> are \<^verbatim>\<open>std::string\<close> values, that
  is, byte sequences.
\<close>

record state =
  storeMap :: "byte list \<rightharpoonup> UanAddress"
  getMap :: "byte \<rightharpoonup> Mac48Address"
  uan_allocated :: nat
  mac_allocated :: nat

text \<open>A translator as its constructor leaves it, before any allocation.\<close>

definition AddressTranslator :: state where
  "AddressTranslator =
     \<lparr>storeMap = Map.empty, getMap = Map.empty, uan_allocated = 0, mac_allocated = 0\<rparr>"

subsection \<open>The key of the forward table\<close>

text \<open>
  The source copies the six bytes of the address into \<^verbatim>\<open>char buff[6]\<close> and then
  builds the key with \<^verbatim>\<open>std::string key = buff\<close>. That constructor reads a C string:
  it stops at the first zero byte and leaves it out. The buffer has no terminator
  of its own, so for an address without a zero byte the read runs on into whatever
  follows the buffer in memory. \<open>mem\<close> stands for those bytes; they are an input of
  the model because the source does not determine them.
\<close>

definition c_str :: "byte list \<Rightarrow> byte list \<Rightarrow> byte list" where
  "c_str buff mem = takeWhile (\<lambda>b. b \<noteq> 0) (buff @ mem)"

definition store_key :: "byte list \<Rightarrow> Mac48Address \<Rightarrow> byte list" where
  "store_key mem addr = c_str (Mac48Address_CopyTo addr) mem"

subsection \<open>The three operations\<close>

text \<open>
  \<^verbatim>\<open>translate\<close>: broadcast first, then the lookup under the string key, then the
  allocation with one insertion into each table. An allocation that fails leaves
  the function before either insertion.
\<close>

definition translate :: "byte list \<Rightarrow> Mac48Address \<Rightarrow> state \<Rightarrow> (error + UanAddress) \<times> state" where
  "translate mem addr st =
     (if addr = Mac48Address_ff then (Inr UanAddress_GetBroadcast, st)
      else
        let key = store_key mem addr in
        case storeMap st key of
          Some got \<Rightarrow> (Inr got, st)
        | None \<Rightarrow>
            (case UanAddress_Allocate (uan_allocated st) of
               Inl e \<Rightarrow> (Inl e, st)
             | Inr (translated, n) \<Rightarrow>
                 (Inr translated,
                  st\<lparr>storeMap := (storeMap st)(key \<mapsto> translated),
                     getMap := (getMap st)(UanAddress_CopyTo translated \<mapsto> addr),
                     uan_allocated := n\<rparr>)))"

text \<open>
  \<^verbatim>\<open>getM48\<close>: the two early exits each have a \<^verbatim>\<open>return\<close>. The allocating path
  inserts into both tables and then reaches the closing brace of the function with
  no \<^verbatim>\<open>return\<close> statement, so no value is handed to the caller: the result of that
  path is \<open>None\<close>.
\<close>

definition getM48 :: "byte list \<Rightarrow> UanAddress \<Rightarrow> state \<Rightarrow> (error + Mac48Address option) \<times> state" where
  "getM48 mem addr st =
     (if addr = UanAddress_GetBroadcast then (Inr (Some Mac48Address_ff), st)
      else
        let key = UanAddress_CopyTo addr in
        case getMap st key of
          Some got \<Rightarrow> (Inr (Some got), st)
        | None \<Rightarrow>
            (case Mac48Address_Allocate (mac_allocated st) of
               Inl e \<Rightarrow> (Inl e, st)
             | Inr (translated, n) \<Rightarrow>
                 (Inr None,
                  st\<lparr>getMap := (getMap st)(key \<mapsto> translated),
                     storeMap := (storeMap st)(store_key mem translated \<mapsto> addr),
                     mac_allocated := n\<rparr>)))"

text \<open>
  \<^verbatim>\<open>remove\<close>: no broadcast test here. The source reads \<^verbatim>\<open>got->second\<close> after the
  entry has been erased from \<^verbatim>\<open>storeMap\<close>; the model reads the short address the
  lookup found, which is the value that entry held.
\<close>

definition remove :: "byte list \<Rightarrow> Mac48Address \<Rightarrow> state \<Rightarrow> state" where
  "remove mem addr st =
     (let key = store_key mem addr in
      case storeMap st key of
        None \<Rightarrow> st
      | Some got \<Rightarrow>
          st\<lparr>storeMap := (storeMap st)(key := None),
             getMap := (getMap st)(UanAddress_CopyTo got := None)\<rparr>)"

subsection \<open>Example addresses and states\<close>

text \<open>
  \<open>mac_a\<close> is the address \<^verbatim>\<open>00:11:22:33:44:55\<close> and \<open>mac_b\<close> the address
  \<^verbatim>\<open>00:66:77:88:99:aa\<close>. \<open>after_a\<close> is the state a new translator is in once \<open>mac_a\<close>
  has been translated.
\<close>

definition mac_a :: Mac48Address where
  "mac_a = Mac48Address 0x00 0x11 0x22 0x33 0x44 0x55"

definition mac_b :: Mac48Address where
  "mac_b = Mac48Address 0x00 0x66 0x77 0x88 0x99 0xAA"

definition after_a :: state where
  "after_a =
     \<lparr>storeMap = [[] \<mapsto> UanAddress 0], getMap = [0 \<mapsto> mac_a],
      uan_allocated = 1, mac_allocated = 0\<rparr>"

section \<open>Properties\<close>

subsection \<open>Keys\<close>

text \<open>An address with a zero byte has a key that no later memory can change.\<close>

lemma store_key_zero:
  "0 \<in> set (Mac48Address_CopyTo addr) \<Longrightarrow>
   store_key mem addr = takeWhile (\<lambda>b. b \<noteq> 0) (Mac48Address_CopyTo addr)"
  by (simp add: store_key_def c_str_def takeWhile_append1 [where x = 0])

lemma zero_byte_not_ff: "0 \<in> set (Mac48Address_CopyTo addr) \<Longrightarrow> addr \<noteq> Mac48Address_ff"
  by (auto simp: Mac48Address_ff_def)

text \<open>
  Two addresses that reach the same key are one address to \<open>translate\<close>: the second
  call finds what the first one stored, or fails as the first one did.
\<close>

lemma translate_same_key:
  assumes "store_key mem2 h2 = store_key mem1 h1"
    and "h1 \<noteq> Mac48Address_ff" and "h2 \<noteq> Mac48Address_ff"
  shows "translate mem2 h2 (snd (translate mem1 h1 st)) = translate mem1 h1 st"
  using assms by (auto simp: translate_def Let_def split: option.splits sum.splits)

text \<open>
  In particular a call repeated at once, reading the same bytes after the buffer,
  returns what it returned before.
\<close>

lemma translate_repeat:
  "translate mem addr (snd (translate mem addr st)) = translate mem addr st"
proof (cases "addr = Mac48Address_ff")
  case True
  then show ?thesis by (simp add: translate_def)
next
  case False
  then show ?thesis by (simp add: translate_same_key)
qed

lemma after_a_reached: "translate mem mac_a AddressTranslator = (Inr (UanAddress 0), after_a)"
  by (simp add: translate_def store_key_def c_str_def AddressTranslator_def mac_a_def
      after_a_def Mac48Address_ff_def UanAddress_Allocate_def)

subsection \<open>The allocators never produce a broadcast address\<close>

lemma byte_of_nat_255: "(of_nat k :: byte) = 255 \<longleftrightarrow> k mod 256 = 255"
proof -
  have "(of_nat k :: byte) = of_nat 255 \<longleftrightarrow> take_bit 8 k = take_bit 8 (255::nat)"
    by (simp only: word_of_nat_eq_iff) simp
  then show ?thesis by (simp add: take_bit_eq_mod)
qed

lemma UanAddress_Allocate_not_broadcast:
  "UanAddress_Allocate n = Inr (s, n') \<Longrightarrow> s \<noteq> UanAddress_GetBroadcast \<and> n' = Suc n"
  by (auto simp: UanAddress_Allocate_def UanAddress_GetBroadcast_def byte_of_nat_255
      split: if_splits)

lemma low_byte_255:
  fixes a :: nat
  assumes "a mod 256 = 255" and "b \<le> a div 256"
  shows "256 * b + 255 \<le> a"
proof -
  have "a = 256 * (a div 256) + a mod 256" by simp
  with assms show ?thesis by linarith
qed

lemma all_ones_nat:
  fixes n :: nat
  assumes b5: "n mod 256 = 255" and b4: "n div 2 ^ 8 mod 256 = 255"
    and b3: "n div 2 ^ 16 mod 256 = 255" and b2: "n div 2 ^ 24 mod 256 = 255"
    and b1: "n div 2 ^ 32 mod 256 = 255" and b0: "n div 2 ^ 40 mod 256 = 255"
  shows "2 ^ 48 - 1 \<le> n"
proof -
  have s: "n div 2 ^ 8 = n div 256" "n div 2 ^ 16 = n div 2 ^ 8 div 256"
    "n div 2 ^ 24 = n div 2 ^ 16 div 256" "n div 2 ^ 32 = n div 2 ^ 24 div 256"
    "n div 2 ^ 40 = n div 2 ^ 32 div 256"
    by (simp_all add: div_mult2_eq [symmetric])
  have "255 \<le> n div 2 ^ 40"
    using low_byte_255 [OF b0, of 0] by simp
  then have "256 * 255 + 255 \<le> n div 2 ^ 32"
    using low_byte_255 [OF b1, of 255] s(5) by simp
  then have "256 * (256 * 255 + 255) + 255 \<le> n div 2 ^ 24"
    using low_byte_255 [OF b2, of "256 * 255 + 255"] s(4) by simp
  then have "256 * (256 * (256 * 255 + 255) + 255) + 255 \<le> n div 2 ^ 16"
    using low_byte_255 [OF b3, of "256 * (256 * 255 + 255) + 255"] s(3) by simp
  then have "256 * (256 * (256 * (256 * 255 + 255) + 255) + 255) + 255 \<le> n div 2 ^ 8"
    using low_byte_255 [OF b4, of "256 * (256 * (256 * 255 + 255) + 255) + 255"] s(2) by simp
  then have "256 * (256 * (256 * (256 * (256 * 255 + 255) + 255) + 255) + 255) + 255 \<le> n"
    using low_byte_255 [OF b5, of "256 * (256 * (256 * (256 * 255 + 255) + 255) + 255) + 255"] s(1)
    by simp
  then show ?thesis by simp
qed

lemma Mac48Address_of_nat_ff: "Mac48Address_of_nat n = Mac48Address_ff \<Longrightarrow> 2 ^ 48 - 1 \<le> n"
  by (rule all_ones_nat) (simp_all add: Mac48Address_of_nat_def Mac48Address_ff_def byte_of_nat_255)

lemma Mac48Address_Allocate_not_ff:
  "Mac48Address_Allocate n = Inr (m, n') \<Longrightarrow> m \<noteq> Mac48Address_ff"
  by (auto simp: Mac48Address_Allocate_def split: if_splits dest!: Mac48Address_of_nat_ff)

subsection \<open>Reverse translation of an unseen short address\<close>

text \<open>
  C1. The claim: for a short address that is not the broadcast address and has no
  record, \<open>getM48\<close> allocates a hardware address, inserts the pair into both tables
  and returns the new address. On a new translator and the short address 5 the
  source does allocate (\<^verbatim>\<open>00:00:00:00:00:01\<close>) and does insert into both tables, and
  then leaves the function without a \<^verbatim>\<open>return\<close>: the caller is handed no address.
\<close>

theorem getM48_allocating_path_returns_nothing:
  "getM48 mem (UanAddress 5) AddressTranslator =
     (Inr None,
      \<lparr>storeMap = [[] \<mapsto> UanAddress 5], getMap = [5 \<mapsto> Mac48Address 0 0 0 0 0 1],
       uan_allocated = 0, mac_allocated = 1\<rparr>)"
  by (simp add: getM48_def store_key_def c_str_def AddressTranslator_def
      UanAddress_GetBroadcast_def Mac48Address_Allocate_def Mac48Address_of_nat_def)

text \<open>
  What the allocating path does achieve: straight after it, with the same key read
  for the placeholder \<open>m\<close>, a \<open>translate\<close> of \<open>m\<close> is a hit that returns \<open>sa\<close>.
\<close>

lemma getM48_then_translate:
  assumes "sa \<noteq> UanAddress_GetBroadcast" and "getMap st (UanAddress_CopyTo sa) = None"
    and "Mac48Address_Allocate (mac_allocated st) = Inr (m, n)"
    and "store_key mem' m = store_key mem m"
  shows "getMap (snd (getM48 mem sa st)) (UanAddress_CopyTo sa) = Some m \<and>
         storeMap (snd (getM48 mem sa st)) (store_key mem m) = Some sa \<and>
         translate mem' m (snd (getM48 mem sa st)) = (Inr sa, snd (getM48 mem sa st))"
proof -
  have "m \<noteq> Mac48Address_ff"
    using assms(3) by (rule Mac48Address_Allocate_not_ff)
  then show ?thesis
    using assms by (simp add: getM48_def translate_def)
qed

text \<open>
  C10. The claim: once \<open>getM48\<close> has allocated the placeholder \<open>m\<close> for an unseen
  short address \<open>sa\<close>, a later \<open>translate\<close> of \<open>m\<close> returns \<open>sa\<close>. On a new
  translator \<open>getM48\<close> of 5 hands nothing to the caller and records the placeholder
  \<^verbatim>\<open>00:00:00:00:00:01\<close> for 5. A second \<open>getM48\<close>, of the unseen short address 6,
  stores 6 under the same forward key, the empty string, because its placeholder
  begins with a zero byte as well. The reverse table still maps 5 to
  \<^verbatim>\<open>00:00:00:00:00:01\<close>, but \<open>translate\<close> of \<^verbatim>\<open>00:00:00:00:00:01\<close> now returns 6.
\<close>

theorem placeholder_lost_to_next_placeholder:
  "fst (getM48 mem (UanAddress 5) AddressTranslator) = Inr None \<and>
   getMap (snd (getM48 mem (UanAddress 6) (snd (getM48 mem (UanAddress 5) AddressTranslator)))) 5
     = Some (Mac48Address 0 0 0 0 0 1) \<and>
   fst (translate mem (Mac48Address 0 0 0 0 0 1)
         (snd (getM48 mem (UanAddress 6) (snd (getM48 mem (UanAddress 5) AddressTranslator)))))
     = Inr (UanAddress 6)"
  by (simp add: translate_def getM48_def store_key_def c_str_def AddressTranslator_def
      Mac48Address_ff_def UanAddress_GetBroadcast_def
      Mac48Address_Allocate_def Mac48Address_of_nat_def)

subsection \<open>Colliding keys\<close>

text \<open>
  C8. Let two addresses each have a zero byte and agree on the bytes before their
  first zero byte (so they agree up to and including it). Then, whatever follows
  the buffer at either call, both have the same key; \<open>translate\<close> returns the same
  result for both in any state; translating the second after the first returns the
  first call's result and leaves the state as the first call left it, so the two
  share one record; and \<open>remove\<close> of either does the same. Such addresses are never
  the broadcast address, which has no zero byte.
\<close>

theorem shared_key:
  assumes "0 \<in> set (Mac48Address_CopyTo h1)" and "0 \<in> set (Mac48Address_CopyTo h2)"
    and "takeWhile (\<lambda>b. b \<noteq> 0) (Mac48Address_CopyTo h1) =
         takeWhile (\<lambda>b. b \<noteq> 0) (Mac48Address_CopyTo h2)"
  shows "store_key mem1 h1 = store_key mem2 h2 \<and>
         fst (translate mem1 h1 st) = fst (translate mem2 h2 st) \<and>
         translate mem2 h2 (snd (translate mem1 h1 st)) = translate mem1 h1 st \<and>
         remove mem1 h1 st = remove mem2 h2 st"
proof -
  have k: "store_key mem1 h1 = store_key mem2 h2"
    using assms by (simp add: store_key_zero)
  have n: "h1 \<noteq> Mac48Address_ff" "h2 \<noteq> Mac48Address_ff"
    using assms(1,2) by (simp_all add: zero_byte_not_ff)
  have "fst (translate mem1 h1 st) = fst (translate mem2 h2 st)"
    using k n by (auto simp: translate_def Let_def split: option.splits sum.splits)
  moreover have "translate mem2 h2 (snd (translate mem1 h1 st)) = translate mem1 h1 st"
    using k n by (simp add: translate_same_key)
  moreover have "remove mem1 h1 st = remove mem2 h2 st"
    using k by (simp add: remove_def)
  ultimately show ?thesis using k by simp
qed

theorem shared_key_witness:
  "0 \<in> set (Mac48Address_CopyTo mac_a) \<and> 0 \<in> set (Mac48Address_CopyTo mac_b) \<and>
   takeWhile (\<lambda>b. b \<noteq> 0) (Mac48Address_CopyTo mac_a) =
     takeWhile (\<lambda>b. b \<noteq> 0) (Mac48Address_CopyTo mac_b) \<and>
   mac_a \<noteq> mac_b \<and>
   store_key [] mac_a = store_key [1] mac_b \<and>
   translate [1] mac_b (snd (translate [] mac_a AddressTranslator)) =
     translate [] mac_a AddressTranslator \<and>
   remove [] mac_a after_a = remove [1] mac_b after_a"
  using shared_key [of mac_a mac_b "[]" "[1]" AddressTranslator]
    shared_key [of mac_a mac_b "[]" "[1]" after_a]
  by (simp add: mac_a_def mac_b_def)

text \<open>
  C3. The claim: distinct addresses other than the broadcast address, translated on
  one translator with no \<open>remove\<close> in between, get pairwise distinct short
  addresses. \<open>mac_a\<close> and \<open>mac_b\<close> are distinct, neither is the broadcast address, and
  on a new translator both are given the short address 0: the key of each is the
  empty string, so the second call is a hit on the record of the first.
\<close>

theorem colliding_addresses_one_short:
  "mac_a \<noteq> mac_b \<and> mac_a \<noteq> Mac48Address_ff \<and> mac_b \<noteq> Mac48Address_ff \<and>
   translate mem mac_a AddressTranslator = (Inr (UanAddress 0), after_a) \<and>
   translate mem' mac_b after_a = (Inr (UanAddress 0), after_a)"
  by (simp add: translate_def store_key_def c_str_def AddressTranslator_def mac_a_def
      mac_b_def after_a_def Mac48Address_ff_def UanAddress_Allocate_def)

text \<open>
  C2. The claim: after any sequence of calls on a new translator the two tables are
  duals and form a bijection between hardware and short addresses. After the single
  call that translates \<open>mac_a\<close>, the forward direction sends \<open>mac_b\<close> to the short
  address 0 while the reverse direction sends 0 to \<open>mac_a\<close>: two hardware addresses
  map to one short address, and translating \<open>mac_b\<close> there and back does not return
  \<open>mac_b\<close>.
\<close>

theorem tables_not_dual:
  "mac_a \<noteq> mac_b \<and> mac_b \<noteq> Mac48Address_ff \<and>
   UanAddress 0 \<noteq> UanAddress_GetBroadcast \<and>
   snd (translate mem mac_a AddressTranslator) = after_a \<and>
   fst (translate mem mac_b after_a) = Inr (UanAddress 0) \<and>
   fst (getM48 mem (UanAddress 0) after_a) = Inr (Some mac_a)"
  by (simp add: translate_def getM48_def store_key_def c_str_def AddressTranslator_def
      mac_a_def mac_b_def after_a_def Mac48Address_ff_def UanAddress_GetBroadcast_def
      UanAddress_Allocate_def)

text \<open>
  C4. The claim: repeated \<open>translate\<close> calls for one address return one short address
  for as long as that address is not removed. Two calls in a row that read the same
  key do agree (\<open>translate_repeat\<close>). But removing \<open>mac_b\<close>, an address that was never translated,
  erases the record of \<open>mac_a\<close>, and the next \<open>translate\<close> of \<open>mac_a\<close> returns the
  short address 1 where the first returned 0.
\<close>

theorem remove_of_other_address_changes_translation:
  "mac_a \<noteq> mac_b \<and>
   fst (translate mem mac_a AddressTranslator) = Inr (UanAddress 0) \<and>
   fst (translate mem mac_a (remove mem mac_b (snd (translate mem mac_a AddressTranslator))))
     = Inr (UanAddress 1)"
  by (simp add: translate_def remove_def store_key_def c_str_def AddressTranslator_def
      mac_a_def mac_b_def Mac48Address_ff_def UanAddress_Allocate_def)

subsection \<open>Hits, removal and exhaustion\<close>

text \<open>
  C9. A hit changes nothing. If \<open>addr\<close> is not the broadcast address and the forward
  table has a short address under its key, \<open>translate\<close> returns that short address
  and the state it was given. If \<open>sa\<close> is not the broadcast address and the reverse
  table has a hardware address under it, \<open>getM48\<close> returns that hardware address
  and the state it was given.
\<close>

theorem cache_hit_pure:
  "(addr \<noteq> Mac48Address_ff \<and> storeMap st (store_key mem addr) = Some s \<longrightarrow>
      translate mem addr st = (Inr s, st)) \<and>
   (sa \<noteq> UanAddress_GetBroadcast \<and> getMap st (UanAddress_CopyTo sa) = Some m \<longrightarrow>
      getM48 mem sa st = (Inr (Some m), st))"
  by (simp add: translate_def getM48_def)

theorem cache_hit_pure_witness:
  "mac_a \<noteq> Mac48Address_ff \<and> storeMap after_a (store_key [] mac_a) = Some (UanAddress 0) \<and>
   translate [] mac_a after_a = (Inr (UanAddress 0), after_a) \<and>
   UanAddress 0 \<noteq> UanAddress_GetBroadcast \<and>
   getMap after_a (UanAddress_CopyTo (UanAddress 0)) = Some mac_a \<and>
   getM48 [] (UanAddress 0) after_a = (Inr (Some mac_a), after_a)"
  using cache_hit_pure [of mac_a after_a "[]" "UanAddress 0" "UanAddress 0" mac_a]
  by (simp add: mac_a_def after_a_def store_key_def c_str_def Mac48Address_ff_def
      UanAddress_GetBroadcast_def)

text \<open>
  What \<open>remove\<close> does in terms of the tables alone: if the forward table has an
  entry under the key it reads, that entry and the entry of the reverse table under
  the short address found are erased and nothing else changes; otherwise the state
  is returned as it was.
\<close>

lemma remove_by_key:
  "(storeMap st (store_key mem addr) = Some s \<longrightarrow>
      remove mem addr st =
        st\<lparr>storeMap := (storeMap st)(store_key mem addr := None),
           getMap := (getMap st)(UanAddress_CopyTo s := None)\<rparr>) \<and>
   (storeMap st (store_key mem addr) = None \<longrightarrow> remove mem addr st = st)"
  by (simp add: remove_def)

text \<open>
  C6. The claim: \<open>remove\<close> of an address with a record erases that record from both
  tables, and \<open>remove\<close> of an address without a record changes nothing. Both halves
  fail. First, after \<open>mac_a\<close> alone has been translated, the only record is that of
  \<open>mac_a\<close>; \<open>remove\<close> of \<open>mac_b\<close>, which has none, empties both tables. Second,
  after \<open>getM48\<close> of 5 and of 6 on a new translator the reverse table maps 5 to
  \<^verbatim>\<open>00:00:00:00:00:01\<close> and the forward table holds 6 under the key of that
  address; \<open>remove\<close> of \<^verbatim>\<open>00:00:00:00:00:01\<close> erases the reverse entry of 6 and
  leaves the one that maps 5 to \<^verbatim>\<open>00:00:00:00:00:01\<close>.
\<close>

theorem remove_not_confined_to_own_record:
  "mac_a \<noteq> mac_b \<and>
   translate mem mac_a AddressTranslator = (Inr (UanAddress 0), after_a) \<and>
   getMap after_a 0 = Some mac_a \<and>
   remove mem mac_b after_a =
     \<lparr>storeMap = Map.empty, getMap = Map.empty, uan_allocated = 1, mac_allocated = 0\<rparr> \<and>
   getMap (snd (getM48 mem (UanAddress 6) (snd (getM48 mem (UanAddress 5) AddressTranslator)))) 5
     = Some (Mac48Address 0 0 0 0 0 1) \<and>
   storeMap (snd (getM48 mem (UanAddress 6) (snd (getM48 mem (UanAddress 5) AddressTranslator))))
     (store_key mem (Mac48Address 0 0 0 0 0 1)) = Some (UanAddress 6) \<and>
   remove mem (Mac48Address 0 0 0 0 0 1)
       (snd (getM48 mem (UanAddress 6) (snd (getM48 mem (UanAddress 5) AddressTranslator)))) =
     \<lparr>storeMap = Map.empty, getMap = [5 \<mapsto> Mac48Address 0 0 0 0 0 1],
      uan_allocated = 0, mac_allocated = 2\<rparr>"
  by (simp add: translate_def getM48_def remove_def store_key_def c_str_def AddressTranslator_def
      mac_a_def mac_b_def after_a_def Mac48Address_ff_def UanAddress_GetBroadcast_def
      UanAddress_Allocate_def Mac48Address_Allocate_def Mac48Address_of_nat_def)



subsection \<open>Broadcast\<close>

text \<open>
  C5. In every state, \<open>translate\<close> maps the hardware broadcast address to the short
  broadcast address and \<open>getM48\<close> maps the short broadcast address to the hardware
  broadcast address, and both return the state they were given: no table and no
  allocator changes.
\<close>

theorem broadcast_transparent:
  "translate mem Mac48Address_ff st = (Inr UanAddress_GetBroadcast, st) \<and>
   getM48 mem UanAddress_GetBroadcast st = (Inr (Some Mac48Address_ff), st)"
  by (simp add: translate_def getM48_def)

end
